theory Spec2Isabelle
  imports Complex_Main "HOL-Library.Sublist"
begin

section \<open>Values of the script\<close>

text \<open>
  The script \<^verbatim>\<open>script.js\<close> is written in JavaScript. A number of the script is a
  double: a finite double is represented by the rational it denotes, and the three
  non-finite doubles are kept apart. Arithmetic on finite numbers is exact here, which is
  what the script's \<^verbatim>\<open>+= 1\<close> and \<^verbatim>\<open>-= 1\<close> compute on integers of magnitude
  below \<open>2^53\<close>.
\<close>

datatype jsnum = Fin rat | NaN | PosInf | NegInf

fun isNaN :: "jsnum \<Rightarrow> bool" where
  "isNaN NaN = True"
| "isNaN _ = False"

fun isFinite :: "jsnum \<Rightarrow> bool" where
  "isFinite (Fin _) = True"
| "isFinite _ = False"

text \<open>Addition and subtraction of doubles, and the comparison \<^verbatim>\<open><=\<close>.\<close>

fun num_add :: "jsnum \<Rightarrow> jsnum \<Rightarrow> jsnum" where
  "num_add (Fin a) (Fin b) = Fin (a + b)"
| "num_add NaN _ = NaN"
| "num_add _ NaN = NaN"
| "num_add PosInf NegInf = NaN"
| "num_add NegInf PosInf = NaN"
| "num_add PosInf _ = PosInf"
| "num_add _ PosInf = PosInf"
| "num_add NegInf _ = NegInf"
| "num_add _ NegInf = NegInf"




text \<open>
  A value of the script. An object is the list of its own properties in their order,
  each key once. \<open>Undefined\<close> is the value of a missing property or attribute.
\<close>

datatype jsval =
    Undefined
  | Null
  | Bool bool
  | Num jsnum
  | Str string
  | Arr "jsval list"
  | Obj "(string \<times> jsval) list"

text \<open>The exceptions that the platform raises in the code modelled here.\<close>

datatype exn = SecurityError | QuotaExceededError | SyntaxError | TypeError

section \<open>JSON and the local storage\<close>

text \<open>
  \<^verbatim>\<open>JSON.stringify\<close>, \<^verbatim>\<open>JSON.parse\<close> and \<^verbatim>\<open>localStorage\<close> belong to
  the platform, not to the script. A text kept in the storage is represented by what
  \<^verbatim>\<open>JSON.parse\<close> makes of it: \<open>Json v\<close> is a text that decodes to the value
  \<open>v\<close>, and \<open>Unparsable s\<close> is the text \<open>s\<close>, which \<^verbatim>\<open>JSON.parse\<close>
  rejects with a SyntaxError (the empty text among them).
\<close>

datatype stored = Unparsable string | Json jsval

text \<open>
  What \<^verbatim>\<open>JSON.parse (JSON.stringify v)\<close> returns: a number that is not finite is
  written as \<^verbatim>\<open>null\<close>, so is \<^verbatim>\<open>undefined\<close> in an array, and a property
  whose value is \<^verbatim>\<open>undefined\<close> is left out. Strings, finite numbers and the order
  of elements and properties are kept.
\<close>

fun json_norm :: "jsval \<Rightarrow> jsval"
  and json_norm_list :: "jsval list \<Rightarrow> jsval list"
  and json_norm_props :: "(string \<times> jsval) list \<Rightarrow> (string \<times> jsval) list" where
  "json_norm Undefined = Null"
| "json_norm Null = Null"
| "json_norm (Bool b) = Bool b"
| "json_norm (Num n) = (if isFinite n then Num n else Null)"
| "json_norm (Str s) = Str s"
| "json_norm (Arr xs) = Arr (json_norm_list xs)"
| "json_norm (Obj ps) = Obj (json_norm_props ps)"
| "json_norm_list [] = []"
| "json_norm_list (x # xs) = json_norm x # json_norm_list xs"
| "json_norm_props [] = []"
| "json_norm_props ((k, v) # ps) =
     (if v = Undefined then json_norm_props ps else (k, json_norm v) # json_norm_props ps)"

text \<open>
  The text that \<^verbatim>\<open>localStorage.setItem (key, JSON.stringify (v))\<close> stores.
  \<^verbatim>\<open>JSON.stringify (undefined)\<close> is \<^verbatim>\<open>undefined\<close>, which the storage keeps as
  the text \<^verbatim>\<open>undefined\<close>; that is no JSON.
\<close>

definition JSON_stringify :: "jsval \<Rightarrow> stored" where
  "JSON_stringify v = (if v = Undefined then Unparsable ''undefined'' else Json (json_norm v))"

fun JSON_parse :: "stored \<Rightarrow> exn + jsval" where
  "JSON_parse (Unparsable s) = Inl SyntaxError"
| "JSON_parse (Json v) = Inr v"

text \<open>A text is falsy exactly when it is empty; a text that decodes is never empty.\<close>

fun truthy_text :: "stored \<Rightarrow> bool" where
  "truthy_text (Unparsable s) = (s \<noteq> [])"
| "truthy_text (Json v) = True"

text \<open>
  The storage of the browser is either out of reach (every access raises a
  SecurityError) or a map from keys to texts.
\<close>

datatype localStorage = Unavailable | Store "string \<Rightarrow> stored option"

text \<open>
  The part of the browser that the cart logic reads and writes: the storage, which texts
  the storage has room for (\<^verbatim>\<open>setItem\<close> raises a QuotaExceededError for the
  others), the messages written by \<^verbatim>\<open>console.error\<close> with the exception they
  report, and four elements of the page. An element is \<open>None\<close> when the page does not
  have it; otherwise \<^verbatim>\<open>orderPlacedModal\<close> says whether it carries the class
  \<^verbatim>\<open>show\<close>, \<^verbatim>\<open>cartDrawer\<close> and \<^verbatim>\<open>profileDrawer\<close> whether they carry the
  class \<^verbatim>\<open>open\<close>, and \<^verbatim>\<open>profileDrawerBackdrop\<close> whether it carries the class
  \<^verbatim>\<open>visible\<close>. \<open>bodyOverflow\<close> is the \<^verbatim>\<open>overflow\<close> of the style of the body.
\<close>

record world =
  storage :: localStorage
  accepts :: "stored \<Rightarrow> bool"
  console :: "(string \<times> exn option) list"
  orderPlacedModal :: "bool option"
  cartDrawer :: "bool option"
  profileDrawer :: "bool option"
  profileDrawerBackdrop :: "bool option"
  bodyOverflow :: string

definition console_error :: "string \<Rightarrow> exn option \<Rightarrow> world \<Rightarrow> world" where
  "console_error msg e w = w\<lparr>console := console w @ [(msg, e)]\<rparr>"

definition getItem :: "string \<Rightarrow> world \<Rightarrow> exn + stored option" where
  "getItem k w = (case storage w of Unavailable \<Rightarrow> Inl SecurityError | Store m \<Rightarrow> Inr (m k))"

definition setItem :: "string \<Rightarrow> stored \<Rightarrow> world \<Rightarrow> exn + world" where
  "setItem k t w =
     (case storage w of
        Unavailable \<Rightarrow> Inl SecurityError
      | Store m \<Rightarrow>
          if accepts w t then Inr (w\<lparr>storage := Store (m(k \<mapsto> t))\<rparr>)
          else Inl QuotaExceededError)"


section \<open>Cart storage\<close>

definition CART_STORAGE_KEY :: string where
  "CART_STORAGE_KEY = ''wristAuraCart''"

text \<open>
  \<^verbatim>\<open>getCart\<close>, lines 14 to 22. The body of the \<^verbatim>\<open>try\<close> block comes first; the
  function itself adds the \<^verbatim>\<open>catch\<close>, which logs and returns the empty array. The
  result of a call is what it returns or raises, together with the world it leaves.
\<close>

definition getCart_try :: "world \<Rightarrow> exn + jsval" where
  "getCart_try w =
     (case getItem CART_STORAGE_KEY w of
        Inl e \<Rightarrow> Inl e
      | Inr None \<Rightarrow> Inr (Arr [])
      | Inr (Some cartJson) \<Rightarrow> if truthy_text cartJson then JSON_parse cartJson else Inr (Arr []))"

definition getCart :: "world \<Rightarrow> (exn + jsval) \<times> world" where
  "getCart w =
     (case getCart_try w of
        Inr v \<Rightarrow> (Inr v, w)
      | Inl e \<Rightarrow>
          (Inr (Arr []), console_error ''Error retrieving cart from localStorage:'' (Some e) w))"

text \<open>\<^verbatim>\<open>saveCart\<close>, lines 25 to 31: a failed write is logged and otherwise ignored.\<close>

definition saveCart :: "jsval \<Rightarrow> world \<Rightarrow> world" where
  "saveCart cart w =
     (case setItem CART_STORAGE_KEY (JSON_stringify cart) w of
        Inr w' \<Rightarrow> w'
      | Inl e \<Rightarrow> console_error ''Error saving cart to localStorage:'' (Some e) w)"

section \<open>Line items and carts\<close>

text \<open>
  The object that \<^verbatim>\<open>addToCart\<close> pushes at line 57,
  \<^verbatim>\<open>{ id, name, price, image, quantity: 1 }\<close>, and the value of the script that a
  sequence of such objects is.
\<close>

record lineitem =
  id' :: string
  name :: string
  price :: jsnum
  image' :: string
  quantity :: int

definition item_val :: "lineitem \<Rightarrow> jsval" where
  "item_val x =
     Obj [(''id'', Str (id' x)), (''name'', Str (name x)), (''price'', Num (price x)),
          (''image'', Str (image' x)), (''quantity'', Num (Fin (of_int (quantity x))))]"

definition cart_val :: "lineitem list \<Rightarrow> jsval" where
  "cart_val cart = Arr (map item_val cart)"

text \<open>The same, as a test on a value: is it a sequence of line items?\<close>

fun is_lineitem :: "jsval \<Rightarrow> bool" where
  "is_lineitem (Obj [(k1, Str i), (k2, Str n), (k3, Num p), (k4, Str img), (k5, Num (Fin q))]) =
     (k1 = ''id'' \<and> k2 = ''name'' \<and> k3 = ''price'' \<and> k4 = ''image'' \<and> k5 = ''quantity''
      \<and> of_int \<lfloor>q\<rfloor> = q)"
| "is_lineitem _ = False"

fun is_cart :: "jsval \<Rightarrow> bool" where
  "is_cart (Arr xs) = list_all is_lineitem xs"
| "is_cart _ = False"

section \<open>Cart logic\<close>

text \<open>
  Reading a property that no built-in object defines (\<^verbatim>\<open>id\<close> and
  \<^verbatim>\<open>quantity\<close> below): it raises a TypeError on \<^verbatim>\<open>null\<close> and
  \<^verbatim>\<open>undefined\<close>, finds an own property of an object, and is \<^verbatim>\<open>undefined\<close>
  everywhere else.
\<close>

fun js_get :: "jsval \<Rightarrow> string \<Rightarrow> exn + jsval" where
  "js_get Undefined k = Inl TypeError"
| "js_get Null k = Inl TypeError"
| "js_get (Obj ps) k = Inr (case map_of ps k of None \<Rightarrow> Undefined | Some v \<Rightarrow> v)"
| "js_get _ k = Inr Undefined"

text \<open>
  Writing a property of an object keeps the place of a property that exists and appends
  a new one. A write to a primitive value is ignored (the script is not in strict mode).
\<close>

fun put_prop :: "string \<Rightarrow> jsval \<Rightarrow> (string \<times> jsval) list \<Rightarrow> (string \<times> jsval) list" where
  "put_prop k v [] = [(k, v)]"
| "put_prop k v ((k', v') # ps) = (if k' = k then (k, v) # ps else (k', v') # put_prop k v ps)"

fun js_set :: "jsval \<Rightarrow> string \<Rightarrow> jsval \<Rightarrow> jsval" where
  "js_set (Obj ps) k v = Obj (put_prop k v ps)"
| "js_set x k v = x"


text \<open>
  \<^verbatim>\<open>v + 1\<close> and \<^verbatim>\<open>v - 1\<close>. On a string, an array or an object the platform
  first converts the value to a number or a string by rules that are not modelled here
  (a string plus one is modelled: it is the string followed by \<^verbatim>\<open>1\<close>); the result
  is \<open>None\<close> there.
\<close>

fun plus_one :: "jsval \<Rightarrow> jsval option" where
  "plus_one (Num n) = Some (Num (num_add n (Fin 1)))"
| "plus_one Undefined = Some (Num NaN)"
| "plus_one Null = Some (Num (Fin 1))"
| "plus_one (Bool b) = Some (Num (Fin (if b then 2 else 1)))"
| "plus_one (Str s) = Some (Str (s @ ''1''))"
| "plus_one _ = None"


text \<open>
  \<^verbatim>\<open>xs.findIndex (p)\<close> on an array: the index of the first element on which the
  callback holds, \<open>-1\<close> when there is none; an exception of the callback ends the
  search. \<^verbatim>\<open>xs.filter (p)\<close> likewise.
\<close>

fun findIndex_from :: "('a \<Rightarrow> exn + bool) \<Rightarrow> 'a list \<Rightarrow> int \<Rightarrow> exn + int" where
  "findIndex_from p [] k = Inr (- 1)"
| "findIndex_from p (x # xs) k =
     (case p x of
        Inl e \<Rightarrow> Inl e
      | Inr b \<Rightarrow> if b then Inr k else findIndex_from p xs (k + 1))"

definition findIndex :: "('a \<Rightarrow> exn + bool) \<Rightarrow> 'a list \<Rightarrow> exn + int" where
  "findIndex p xs = findIndex_from p xs 0"

fun js_filter :: "('a \<Rightarrow> exn + bool) \<Rightarrow> 'a list \<Rightarrow> exn + 'a list" where
  "js_filter p [] = Inr []"
| "js_filter p (x # xs) =
     (case p x of
        Inl e \<Rightarrow> Inl e
      | Inr b \<Rightarrow>
          (case js_filter p xs of
             Inl e \<Rightarrow> Inl e
           | Inr ys \<Rightarrow> Inr (if b then x # ys else ys)))"


text \<open>
  The callbacks \<^verbatim>\<open>item => item.id === id\<close> and \<^verbatim>\<open>item => item.id !== id\<close>.
  The \<^verbatim>\<open>id\<close> they compare with is a string or \<^verbatim>\<open>undefined\<close>, and on these
  \<^verbatim>\<open>===\<close> is the equality of values.
\<close>

definition id_is :: "jsval \<Rightarrow> jsval \<Rightarrow> exn + bool" where
  "id_is i item = (case js_get item ''id'' of Inl e \<Rightarrow> Inl e | Inr v \<Rightarrow> Inr (v = i))"

definition id_is_not :: "jsval \<Rightarrow> jsval \<Rightarrow> exn + bool" where
  "id_is_not i item = (case js_get item ''id'' of Inl e \<Rightarrow> Inl e | Inr v \<Rightarrow> Inr (v \<noteq> i))"

text \<open>
  The \<^verbatim>\<open>data-product-*\<close> attributes of the button that was clicked. An attribute
  that is missing reads as \<^verbatim>\<open>undefined\<close>, here \<open>None\<close>. \<open>productPrice\<close> is the
  number that \<^verbatim>\<open>parseFloat\<close> reads from \<^verbatim>\<open>data-product-price\<close>: \<open>NaN\<close>
  when the attribute is missing or does not start with a number.
\<close>

record dataset =
  productId :: "string option"
  productName :: "string option"
  productPrice :: jsnum
  productImg :: "string option"

definition attr_val :: "string option \<Rightarrow> jsval" where
  "attr_val a = (case a of None \<Rightarrow> Undefined | Some s \<Rightarrow> Str s)"

text \<open>\<^verbatim>\<open>!a\<close> on an attribute: it is missing or empty.\<close>

definition not_attr :: "string option \<Rightarrow> bool" where
  "not_attr a = (case a of None \<Rightarrow> True | Some s \<Rightarrow> s = [])"

text \<open>The object \<^verbatim>\<open>{ id, name, price, image, quantity: 1 }\<close> of line 57.\<close>

definition new_item :: "dataset \<Rightarrow> jsval" where
  "new_item d =
     Obj [(''id'', attr_val (productId d)), (''name'', attr_val (productName d)),
          (''price'', Num (productPrice d)), (''image'', attr_val (productImg d)),
          (''quantity'', Num (Fin 1))]"

text \<open>
  How a call ends. After a cart operation has changed the storage it redraws the page
  (\<^verbatim>\<open>renderCart\<close>, \<^verbatim>\<open>updateCartBadge\<close>, opening the drawer): these calls read
  the storage through \<^verbatim>\<open>getCart\<close> and write to the page only, and they are not
  part of this development; \<open>Redraw\<close> says that the call went on to them.
  \<open>Unmodelled\<close> says that the call reached a conversion that is not modelled (see
  \<open>plus_one\<close>).
\<close>

datatype completion = Returned | Threw exn | Redraw | Unmodelled

text \<open>
  Lines 52 to 58 of \<^verbatim>\<open>addToCart\<close>, on the value that \<^verbatim>\<open>getCart\<close> returned:
  the cart handed to \<^verbatim>\<open>saveCart\<close>. A value that is no array has no method
  \<^verbatim>\<open>findIndex\<close>, and the call raises a TypeError. An index above \<open>-1\<close> that
  \<^verbatim>\<open>findIndex\<close> returns is an index of the array (\<open>findIndex_range\<close> below).
\<close>

definition add_item :: "dataset \<Rightarrow> jsval \<Rightarrow> completion + jsval" where
  "add_item d cart =
     (case cart of
        Arr xs \<Rightarrow>
          (case findIndex (id_is (attr_val (productId d))) xs of
             Inl e \<Rightarrow> Inl (Threw e)
           | Inr existingItemIndex \<Rightarrow>
               if existingItemIndex > - 1 then
                 (let k = nat existingItemIndex in
                  case js_get (xs ! k) ''quantity'' of
                    Inl e \<Rightarrow> Inl (Threw e)
                  | Inr q \<Rightarrow>
                      (case plus_one q of
                         None \<Rightarrow> Inl Unmodelled
                       | Some q' \<Rightarrow> Inr (Arr (xs[k := js_set (xs ! k) ''quantity'' q']))))
               else Inr (Arr (xs @ [new_item d])))
      | _ \<Rightarrow> Inl (Threw TypeError))"

text \<open>
  \<^verbatim>\<open>addToCart\<close>, lines 37 to 68. The argument is the dataset of the button that the
  event leads to, \<open>None\<close> when there is no such button.
\<close>

definition addToCart :: "dataset option \<Rightarrow> world \<Rightarrow> completion \<times> world" where
  "addToCart button w =
     (case button of
        None \<Rightarrow> (Returned, w)
      | Some d \<Rightarrow>
          if not_attr (productId d) \<or> not_attr (productName d) \<or> isNaN (productPrice d) then
            (Returned, console_error ''Missing product data for adding to cart.'' None w)
          else
            (case getCart w of
               (Inl e, w1) \<Rightarrow> (Threw e, w1)
             | (Inr cart, w1) \<Rightarrow>
                 (case add_item d cart of
                    Inl c \<Rightarrow> (c, w1)
                  | Inr cart' \<Rightarrow> (Redraw, saveCart cart' w1))))"

text \<open>\<^verbatim>\<open>removeFromCart\<close>, lines 71 to 77.\<close>

definition removeFromCart :: "string \<Rightarrow> world \<Rightarrow> completion \<times> world" where
  "removeFromCart i w =
     (case getCart w of
        (Inl e, w1) \<Rightarrow> (Threw e, w1)
      | (Inr cart, w1) \<Rightarrow>
          (case cart of
             Arr xs \<Rightarrow>
               (case js_filter (id_is_not (Str i)) xs of
                  Inl e \<Rightarrow> (Threw e, w1)
                | Inr ys \<Rightarrow> (Redraw, saveCart (Arr ys) w1))
           | _ \<Rightarrow> (Threw TypeError, w1)))"





definition placeOrder_timeout :: "world \<Rightarrow> world" where
  "placeOrder_timeout w = w\<lparr>orderPlacedModal := map_option (\<lambda>_. False) (orderPlacedModal w)\<rparr>"

section \<open>Search and filter\<close>

text \<open>
  Strings are lists of characters. Letter case and white space are those of ASCII:
  \<^verbatim>\<open>toLowerCase\<close> maps \<^verbatim>\<open>A\<close> to \<^verbatim>\<open>Z\<close> to \<^verbatim>\<open>a\<close> to \<^verbatim>\<open>z\<close>,
  and \<^verbatim>\<open>trim\<close> removes blanks, tabs, line feeds, vertical tabs, form feeds and
  carriage returns at both ends.
\<close>

definition to_lower :: "char \<Rightarrow> char" where
  "to_lower c =
     (let n = (of_char c :: nat) in if 65 \<le> n \<and> n \<le> 90 then char_of (n + 32) else c)"

definition toLowerCase :: "string \<Rightarrow> string" where
  "toLowerCase s = map to_lower s"

definition is_space :: "char \<Rightarrow> bool" where
  "is_space c = (let n = (of_char c :: nat) in n = 32 \<or> (9 \<le> n \<and> n \<le> 13))"

definition trim :: "string \<Rightarrow> string" where
  "trim s = rev (dropWhile is_space (rev (dropWhile is_space s)))"

text \<open>\<^verbatim>\<open>s.includes (q)\<close>: the string \<open>q\<close> occurs in \<open>s\<close> as a run of characters.\<close>

fun js_includes :: "string \<Rightarrow> string \<Rightarrow> bool" where
  "js_includes [] q = (q = [])"
| "js_includes (c # cs) q = (prefix q (c # cs) \<or> js_includes cs q)"

text \<open>
  The decimal digits of a count, as the template literal \<^verbatim>\<open>${foundCount}\<close> inserts
  them.
\<close>

definition digit_char :: "nat \<Rightarrow> char" where
  "digit_char d = char_of (of_char (CHR ''0'') + d)"

fun decimal_digits :: "nat \<Rightarrow> string" where
  "decimal_digits n =
     (if 10 \<le> n then decimal_digits (n div 10) else []) @ [digit_char (n mod 10)]"

declare decimal_digits.simps [simp del]

text \<open>\<^verbatim>\<open>category.replace(/-/g, ' ')\<close>: every hyphen becomes a blank.\<close>

definition hyphens_to_blanks :: "string \<Rightarrow> string" where
  "hyphens_to_blanks s = map (\<lambda>c. if c = CHR ''-'' then CHR '' '' else c) s"

text \<open>The global \<^verbatim>\<open>filterState\<close> of lines 6 to 9, and its initial value.\<close>

record filter_state =
  searchQuery :: string
  category :: string

definition filterState_init :: filter_state where
  "filterState_init = \<lparr>searchQuery = [], category = ''all''\<rparr>"

text \<open>
  A product card, an element of class \<^verbatim>\<open>product-card-column\<close>: its
  \<^verbatim>\<open>data-product-*\<close> attributes, \<open>None\<close> for one that is missing, and the
  \<^verbatim>\<open>display\<close> of its style.
\<close>

record card =
  productTitle :: "string option"
  productKeywords :: "string option"
  productCategory :: "string option"
  display :: string

text \<open>
  The part of the page that search and filter read and write: the filter state, the title
  of the document, the text in \<^verbatim>\<open>searchInput\<close> (\<open>None\<close>: no such element), the
  cards in \<^verbatim>\<open>productGridContainer\<close> (\<open>None\<close>: no such element), whether the
  heading of the featured collections exists, the text of the element
  \<^verbatim>\<open>search-result-message\<close> (\<open>None\<close>: no such element), the filter buttons with
  their \<^verbatim>\<open>data-category\<close> and whether they are active, and the address that the
  page was sent to. \<open>location = Some q\<close> stands for the address
  \<^verbatim>\<open>home.html?search=\<close> followed by \<^verbatim>\<open>encodeURIComponent (q)\<close>. Scrolling is
  not part of the page here.
\<close>

record page =
  filterState :: filter_state
  documentTitle :: string
  searchInput :: "string option"
  productGridContainer :: "card list option"
  featuredHeading :: bool
  searchResultMessage :: "string option"
  filterButtons :: "(string option \<times> bool) list"
  location :: "string option"

text \<open>\<^verbatim>\<open>a || ''\<close> on an attribute.\<close>

definition attr_or_empty :: "string option \<Rightarrow> string" where
  "attr_or_empty a = (case a of None \<Rightarrow> [] | Some s \<Rightarrow> s)"

text \<open>Lines 229 to 243: \<^verbatim>\<open>categoryMatch && searchMatch\<close> for one card.\<close>

definition card_matches :: "filter_state \<Rightarrow> card \<Rightarrow> bool" where
  "card_matches fs col =
     (let title = attr_or_empty (productTitle col);
          keywords = attr_or_empty (productKeywords col);
          cardCategory = attr_or_empty (productCategory col);
          categoryMatch = (category fs = ''all'' \<or> cardCategory = category fs);
          searchMatch = (searchQuery fs = [] \<or> js_includes title (searchQuery fs)
                         \<or> js_includes keywords (searchQuery fs)
                         \<or> js_includes cardCategory (searchQuery fs))
      in categoryMatch \<and> searchMatch)"

text \<open>
  The loop of lines 228 to 249 over the cards: every card is shown or hidden, and
  \<^verbatim>\<open>foundCount\<close> counts the cards shown.
\<close>

fun show_cards :: "filter_state \<Rightarrow> card list \<Rightarrow> nat \<Rightarrow> card list \<times> nat" where
  "show_cards fs [] foundCount = ([], foundCount)"
| "show_cards fs (col # cols) foundCount =
     (if card_matches fs col then
        (case show_cards fs cols (foundCount + 1) of
           (cols', n) \<Rightarrow> (col\<lparr>display := ''block''\<rparr> # cols', n))
      else
        (case show_cards fs cols foundCount of
           (cols', n) \<Rightarrow> (col\<lparr>display := ''none''\<rparr> # cols', n)))"

text \<open>A text between double quotes.\<close>

definition quoted :: "string \<Rightarrow> string" where
  "quoted s = [CHR 0x22] @ s @ [CHR 0x22]"

text \<open>Lines 261 to 273: the text of the message, empty when there is none.\<close>

definition messageText :: "filter_state \<Rightarrow> nat \<Rightarrow> string" where
  "messageText fs foundCount =
     (if searchQuery fs \<noteq> [] \<and> category fs = ''all'' then
        (if foundCount > 0 then
           ''Showing '' @ decimal_digits foundCount @ '' results for: <strong>''
             @ quoted (searchQuery fs) @ ''</strong>''
         else ''No results found for: <strong>'' @ quoted (searchQuery fs) @ ''</strong>'')
      else if searchQuery fs = [] \<and> category fs \<noteq> ''all'' then
        ''Showing '' @ decimal_digits foundCount @ '' results in <strong>''
          @ hyphens_to_blanks (category fs) @ ''</strong>''
      else if searchQuery fs \<noteq> [] \<and> category fs \<noteq> ''all'' then
        (if foundCount > 0 then
           ''Showing '' @ decimal_digits foundCount @ '' results for <strong>''
             @ quoted (searchQuery fs) @ ''</strong> in <strong>''
             @ hyphens_to_blanks (category fs) @ ''</strong>''
         else
           ''No results found for <strong>'' @ quoted (searchQuery fs)
             @ ''</strong> in <strong>'' @ hyphens_to_blanks (category fs) @ ''</strong>'')
      else [])"

text \<open>Line 276: the paragraph that carries the text.\<close>

definition message_html :: "string \<Rightarrow> string" where
  "message_html text =
     ''<p class='' @ quoted ''lead fw-light'' @ '' style=''
       @ quoted ''color: var(--luxury-gold);'' @ ''>'' @ text @ ''</p>''"

text \<open>
  \<^verbatim>\<open>applyFilters\<close>, lines 219 to 288. The message of the previous call is removed
  before the heading is looked at.
\<close>

definition applyFilters :: "page \<Rightarrow> page" where
  "applyFilters pg =
     (case productGridContainer pg of
        None \<Rightarrow> pg
      | Some cards \<Rightarrow>
          (case show_cards (filterState pg) cards 0 of
             (cards', foundCount) \<Rightarrow>
               (let pg1 = pg\<lparr>productGridContainer := Some cards', searchResultMessage := None\<rparr>;
                    text = messageText (filterState pg) foundCount
                in if featuredHeading pg \<and> text \<noteq> []
                   then pg1\<lparr>searchResultMessage := Some (message_html text)\<rparr>
                   else pg1)))"

text \<open>
  \<^verbatim>\<open>performSearch\<close>, lines 177 to 192. Away from the home page a query that is not
  empty closes the search bar, which changes a class of the page only, and sends the
  browser to the home page.
\<close>

definition performSearch :: "page \<Rightarrow> page" where
  "performSearch pg =
     (case searchInput pg of
        None \<Rightarrow> pg
      | Some v \<Rightarrow>
          (let query = toLowerCase (trim v)
           in if js_includes (documentTitle pg) ''Wrist Aura | Luxury Timepieces'' then
                applyFilters (pg\<lparr>filterState := (filterState pg)\<lparr>searchQuery := query\<rparr>\<rparr>)
              else if query \<noteq> [] then pg\<lparr>location := Some query\<rparr>
              else pg))"

text \<open>
  The loop of lines 204 to 210 over the filter buttons. A button without
  \<^verbatim>\<open>data-category\<close> raises a TypeError, which ends the loop and the call; the
  buttons before it have been marked by then.
\<close>

fun mark_buttons :: "string \<Rightarrow> (string option \<times> bool) list \<Rightarrow> exn option \<times> (string option \<times> bool) list" where
  "mark_buttons c [] = (None, [])"
| "mark_buttons c ((None, a) # bs) = (Some TypeError, (None, a) # bs)"
| "mark_buttons c ((Some k, a) # bs) =
     (case mark_buttons c bs of (e, bs') \<Rightarrow> (e, (Some k, toLowerCase k = c) # bs'))"

text \<open>
  \<^verbatim>\<open>filterByCategory\<close>, lines 198 to 213. The argument is \<open>None\<close> when it is no
  string. The result says which exception the call raised, if any.
\<close>

definition filterByCategory :: "string option \<Rightarrow> page \<Rightarrow> exn option \<times> page" where
  "filterByCategory c pg =
     (case c of
        None \<Rightarrow> (None, pg)
      | Some cat \<Rightarrow>
          (let pg1 = pg\<lparr>filterState := (filterState pg)\<lparr>category := toLowerCase cat\<rparr>\<rparr>
           in case mark_buttons (toLowerCase cat) (filterButtons pg1) of
                (Some e, bs) \<Rightarrow> (Some e, pg1\<lparr>filterButtons := bs\<rparr>)
              | (None, bs) \<Rightarrow> (None, applyFilters (pg1\<lparr>filterButtons := bs\<rparr>))))"

text \<open>The filtered result: the cards that are displayed, in the order of the page.\<close>

definition shown :: "page \<Rightarrow> card list" where
  "shown pg =
     (case productGridContainer pg of
        None \<Rightarrow> []
      | Some cards \<Rightarrow> filter (\<lambda>col. display col = ''block'') cards)"

text \<open>
  The operations \<^verbatim>\<open>setSearchQuery (q)\<close> and \<^verbatim>\<open>setCategory (c)\<close> of the
  specification: a search for the text \<open>q\<close> typed into \<^verbatim>\<open>searchInput\<close>, and a
  click on the filter button of the category \<open>c\<close>.
\<close>

definition setSearchQuery :: "string \<Rightarrow> page \<Rightarrow> page" where
  "setSearchQuery q pg = performSearch (pg\<lparr>searchInput := Some q\<rparr>)"

definition setCategory :: "string \<Rightarrow> page \<Rightarrow> page" where
  "setCategory c pg = snd (filterByCategory (Some c) pg)"



text \<open>
  A home page for examples, with the given cards, all displayed, the filter state of a
  fresh page, the heading, no message and no filter buttons; and a card with a title and
  a category.
\<close>

definition home_of :: "card list \<Rightarrow> page" where
  "home_of cards =
     \<lparr>filterState = filterState_init, documentTitle = ''Wrist Aura | Luxury Timepieces'',
      searchInput = Some [], productGridContainer = Some cards, featuredHeading = True,
      searchResultMessage = None, filterButtons = [], location = None\<rparr>"

definition product :: "string \<Rightarrow> string \<Rightarrow> card" where
  "product t c =
     \<lparr>productTitle = Some t, productKeywords = None, productCategory = Some c,
      display = ''block''\<rparr>"

section \<open>Carts as the storage keeps them\<close>

text \<open>
  A line item and a cart after \<^verbatim>\<open>JSON.stringify\<close> and \<^verbatim>\<open>JSON.parse\<close>: what
  \<^verbatim>\<open>getCart\<close> returns once \<^verbatim>\<open>saveCart\<close> has stored the cart.
\<close>

definition stored_item :: "lineitem \<Rightarrow> jsval" where
  "stored_item x = json_norm (item_val x)"

definition as_stored :: "lineitem list \<Rightarrow> jsval" where
  "as_stored cart = json_norm (cart_val cart)"

text \<open>\<^verbatim>\<open>getCart\<close> returns the cart, as the storage keeps it.\<close>

definition loads :: "world \<Rightarrow> lineitem list \<Rightarrow> bool" where
  "loads w cart = (fst (getCart w) = Inr (as_stored cart))"

text \<open>The storage can be written, and it has room for the text of the value.\<close>

definition can_store :: "world \<Rightarrow> jsval \<Rightarrow> bool" where
  "can_store w v = (storage w \<noteq> Unavailable \<and> accepts w (JSON_stringify v))"

text \<open>
  The operation \<^verbatim>\<open>addItem (id, name, price, image)\<close> of the specification is a click
  on a button that carries the four attributes.
\<close>

definition addItem :: "string \<Rightarrow> string \<Rightarrow> jsnum \<Rightarrow> string \<Rightarrow> world \<Rightarrow> completion \<times> world" where
  "addItem i n p img =
     addToCart (Some \<lparr>productId = Some i, productName = Some n, productPrice = p,
                      productImg = Some img\<rparr>)"


text \<open>
  A browser for examples: its storage holds the given text under the key of the cart,
  if any, and nothing else; there is room for every text, nothing has been logged, the
  modal is hidden, the cart drawer is open over its backdrop, and the profile drawer is
  closed.
\<close>

definition world_of :: "stored option \<Rightarrow> world" where
  "world_of e =
     \<lparr>storage = Store ((\<lambda>k. None)(CART_STORAGE_KEY := e)), accepts = (\<lambda>t. True), console = [],
      orderPlacedModal = Some False, cartDrawer = Some True, profileDrawer = Some False,
      profileDrawerBackdrop = Some True, bodyOverflow = ''hidden''\<rparr>"

section \<open>Lemmas on stored carts\<close>

subsection \<open>JSON\<close>

lemma json_norm_list_map: "json_norm_list xs = map json_norm xs"
  by (induction xs) simp_all

lemma json_norm_not_Undefined: "json_norm v \<noteq> Undefined"
  by (cases v) simp_all

lemma json_norm_idem:
  "json_norm (json_norm v) = json_norm v"
  "json_norm_list (json_norm_list xs) = json_norm_list xs"
  "json_norm_props (json_norm_props ps) = json_norm_props ps"
  by (induction v and xs and ps rule: json_norm_json_norm_list_json_norm_props.induct)
     (simp_all add: json_norm_not_Undefined)


lemma stored_item_eq:
  "stored_item x =
     Obj [(''id'', Str (id' x)), (''name'', Str (name x)), (''price'', json_norm (Num (price x))),
          (''image'', Str (image' x)), (''quantity'', Num (Fin (of_int (quantity x))))]"
  by (simp add: stored_item_def item_val_def)

lemma as_stored_eq: "as_stored cart = Arr (map stored_item cart)"
  by (simp add: as_stored_def cart_val_def json_norm_list_map stored_item_def)

lemma json_norm_stored_item: "json_norm (stored_item x) = stored_item x"
  by (simp add: stored_item_def json_norm_idem)

lemma json_norm_as_stored: "json_norm (as_stored cart) = as_stored cart"
  by (simp add: as_stored_def json_norm_idem)

lemma stringify_as_stored: "JSON_stringify (as_stored cart) = Json (as_stored cart)"
  by (simp add: JSON_stringify_def json_norm_as_stored) (simp add: as_stored_eq)

lemma stringify_cart_val: "JSON_stringify (cart_val cart) = Json (as_stored cart)"
  by (simp add: JSON_stringify_def as_stored_def cart_val_def)

lemma can_store_as_stored: "can_store w (as_stored cart) = can_store w (cart_val cart)"
  by (simp add: can_store_def stringify_as_stored stringify_cart_val)

lemma stored_item_finite: "isFinite (price x) \<Longrightarrow> stored_item x = item_val x"
  by (simp add: stored_item_eq item_val_def)

lemma as_stored_finite: "\<forall>x\<in>set cart. isFinite (price x) \<Longrightarrow> as_stored cart = cart_val cart"
  by (simp add: as_stored_eq cart_val_def stored_item_finite)

lemma is_lineitem_iff: "is_lineitem v \<longleftrightarrow> (\<exists>x. v = item_val x)"
proof
  assume "is_lineitem v"
  then obtain i n p img q where
    v: "v = Obj [(''id'', Str i), (''name'', Str n), (''price'', Num p), (''image'', Str img),
                 (''quantity'', Num (Fin q))]"
    and q: "of_int \<lfloor>q\<rfloor> = q"
    by (induction v rule: is_lineitem.induct) auto
  have "v = item_val \<lparr>id' = i, name = n, price = p, image' = img, quantity = \<lfloor>q\<rfloor>\<rparr>"
    by (simp add: v item_val_def q)
  then show "\<exists>x. v = item_val x" ..
next
  assume "\<exists>x. v = item_val x"
  then show "is_lineitem v" by (auto simp: item_val_def)
qed

lemma is_cart_iff: "is_cart v \<longleftrightarrow> (\<exists>cart. v = cart_val cart)"
proof
  assume "is_cart v"
  then obtain xs where v: "v = Arr xs" and xs: "list_all is_lineitem xs"
    by (cases v) simp_all
  from xs have "\<exists>cart. xs = map item_val cart"
  proof (induction xs)
    case Nil
    then show ?case by simp
  next
    case (Cons x xs)
    then obtain y cart where "x = item_val y" "xs = map item_val cart"
      by (auto simp: is_lineitem_iff)
    then have "x # xs = map item_val (y # cart)" by simp
    then show ?case ..
  qed
  with v show "\<exists>cart. v = cart_val cart" by (auto simp: cart_val_def)
next
  assume "\<exists>cart. v = cart_val cart"
  then show "is_cart v" by (auto simp: cart_val_def list_all_iff is_lineitem_iff)
qed

subsection \<open>Items\<close>

lemma map_of_put_prop: "map_of (put_prop k v ps) = (map_of ps)(k \<mapsto> v)"
  by (induction ps) (auto simp: fun_eq_iff)

lemma js_get_js_set_same: "js_get (js_set (Obj ps) k v) k = Inr v"
  by (simp add: map_of_put_prop)

lemma js_get_js_set_other: "k' \<noteq> k \<Longrightarrow> js_get (js_set x k v) k' = js_get x k'"
  by (cases x) (simp_all add: map_of_put_prop)

lemma id_is_stored_item: "id_is (Str i) (stored_item x) = Inr (id' x = i)"
  by (simp add: id_is_def stored_item_eq)

lemma id_is_not_stored_item: "id_is_not (Str i) (stored_item x) = Inr (id' x \<noteq> i)"
  by (simp add: id_is_not_def stored_item_eq)



lemma new_item_typed:
  "new_item \<lparr>productId = Some i, productName = Some n, productPrice = p, productImg = Some img\<rparr>
     = item_val \<lparr>id' = i, name = n, price = p, image' = img, quantity = 1\<rparr>"
  by (simp add: new_item_def item_val_def attr_val_def)

lemma append_new_as_stored:
  "json_norm (Arr (map stored_item cart @ [item_val x])) = as_stored (cart @ [x])"
  by (simp add: as_stored_eq json_norm_list_map json_norm_stored_item) (simp add: stored_item_def)

subsection \<open>Searching and filtering an array\<close>

lemma findIndex_from_range:
  "findIndex_from p xs n = Inr k \<Longrightarrow> k = - 1 \<or> (n \<le> k \<and> k < n + int (length xs))"
proof (induction xs arbitrary: n)
  case Nil
  then show ?case by simp
next
  case (Cons x xs)
  show ?case
  proof (cases "p x")
    case (Inl e)
    with Cons.prems show ?thesis by simp
  next
    case (Inr b)
    show ?thesis
    proof (cases b)
      case True
      with Inr Cons.prems show ?thesis by simp
    next
      case False
      with Inr Cons.prems have "findIndex_from p xs (n + 1) = Inr k" by simp
      from Cons.IH[OF this] show ?thesis by auto
    qed
  qed
qed

lemma findIndex_range:
  "findIndex p xs = Inr k \<Longrightarrow> k = - 1 \<or> (0 \<le> k \<and> nat k < length xs)"
  using findIndex_from_range[of p xs 0 k] by (auto simp: findIndex_def)

lemma findIndex_from_none:
  "\<forall>x\<in>set xs. p x = Inr False \<Longrightarrow> findIndex_from p xs n = Inr (- 1)"
  by (induction xs arbitrary: n) simp_all



lemma findIndex_stored_none:
  assumes "\<forall>x\<in>set cart. id' x \<noteq> i"
  shows "findIndex (id_is (Str i)) (map stored_item cart) = Inr (- 1)"
  unfolding findIndex_def using assms
  by (intro findIndex_from_none) (simp add: id_is_stored_item)

lemma js_filter_total:
  "\<forall>x\<in>set xs. p x = Inr (q x) \<Longrightarrow> js_filter p xs = Inr (filter q xs)"
  by (induction xs) simp_all

lemma js_filter_stored:
  "js_filter (id_is_not (Str i)) (map stored_item cart)
     = Inr (map stored_item (filter (\<lambda>x. id' x \<noteq> i) cart))"
  by (induction cart) (simp_all add: id_is_not_stored_item)

subsection \<open>Storage\<close>

lemma getCart_frame:
  "storage (snd (getCart w)) = storage w"
  "accepts (snd (getCart w)) = accepts w"
  "orderPlacedModal (snd (getCart w)) = orderPlacedModal w"
  "cartDrawer (snd (getCart w)) = cartDrawer w"
  by (simp_all add: getCart_def console_error_def split: sum.splits)

lemma getCart_Inr: "\<exists>v. fst (getCart w) = Inr v"
  by (simp add: getCart_def split: sum.splits)

lemma getCart_loads: "loads w cart \<Longrightarrow> getCart w = (Inr (as_stored cart), snd (getCart w))"
  by (simp add: loads_def prod_eq_iff)

lemma can_store_getCart: "can_store (snd (getCart w)) v = can_store w v"
  by (simp add: can_store_def getCart_frame)

lemma getCart_Json:
  "storage w = Store m \<Longrightarrow> m CART_STORAGE_KEY = Some (Json v) \<Longrightarrow> getCart w = (Inr v, w)"
  by (simp add: getCart_def getCart_try_def getItem_def)


lemma saveCart_success:
  assumes "can_store w v" "v \<noteq> Undefined"
  shows "\<exists>m. storage w = Store m
           \<and> saveCart v w = w\<lparr>storage := Store (m(CART_STORAGE_KEY \<mapsto> Json (json_norm v)))\<rparr>"
  using assms
  by (cases "storage w") (simp_all add: can_store_def saveCart_def setItem_def JSON_stringify_def)

lemma saveCart_failure:
  assumes "\<not> can_store w v"
  shows "storage (saveCart v w) = storage w" "accepts (saveCart v w) = accepts w"
  using assms
  by (cases "storage w"; simp add: can_store_def saveCart_def setItem_def console_error_def)+

lemma saveCart_accepts: "accepts (saveCart v w) = accepts w"
  by (cases "storage w") (simp_all add: saveCart_def setItem_def console_error_def)

lemma getCart_saveCart:
  assumes "can_store w v" "v \<noteq> Undefined"
  shows "getCart (saveCart v w) = (Inr (json_norm v), saveCart v w)"
proof -
  from saveCart_success[OF assms] obtain m where
    "saveCart v w = w\<lparr>storage := Store (m(CART_STORAGE_KEY \<mapsto> Json (json_norm v)))\<rparr>" by blast
  then show ?thesis by (simp add: getCart_Json)
qed

lemma loads_saveCart:
  assumes "can_store w (cart_val cart)"
  shows "loads (saveCart (as_stored cart) (snd (getCart w))) cart"
proof -
  have "can_store (snd (getCart w)) (as_stored cart)"
    using assms by (simp add: can_store_getCart can_store_as_stored)
  moreover have "as_stored cart \<noteq> Undefined" by (simp add: as_stored_eq)
  ultimately show ?thesis
    by (simp add: loads_def getCart_saveCart json_norm_as_stored)
qed

subsection \<open>The operations on a stored cart\<close>


lemma add_item_absent:
  assumes "\<forall>x\<in>set cart. id' x \<noteq> i" and d: "productId d = Some i"
  shows "add_item d (as_stored cart) = Inr (Arr (map stored_item cart @ [new_item d]))"
  using findIndex_stored_none[OF assms(1)]
  by (simp add: add_item_def as_stored_eq d attr_val_def)

lemma addToCart_valid:
  assumes "productId d = Some i" "i \<noteq> []" "productName d = Some n" "n \<noteq> []"
    "\<not> isNaN (productPrice d)" and "loads w cart"
  shows "addToCart (Some d) w =
     (case add_item d (as_stored cart) of
        Inl c \<Rightarrow> (c, snd (getCart w))
      | Inr cart' \<Rightarrow> (Redraw, saveCart cart' (snd (getCart w))))"
proof -
  obtain w1 where g: "getCart w = (Inr (as_stored cart), w1)"
    using getCart_loads[OF assms(6)] by blast
  have s: "snd (getCart w) = w1" by (simp add: g)
  show ?thesis
    unfolding s using assms(1-5) by (simp add: addToCart_def not_attr_def g)
qed


lemma stringify_append_new:
  "JSON_stringify (Arr (map stored_item cart @ [item_val x])) = JSON_stringify (as_stored (cart @ [x]))"
proof -
  have "JSON_stringify (Arr (map stored_item cart @ [item_val x])) = Json (as_stored (cart @ [x]))"
    unfolding JSON_stringify_def append_new_as_stored by simp
  then show ?thesis by (simp add: stringify_as_stored)
qed

lemma saveCart_cong: "JSON_stringify u = JSON_stringify v \<Longrightarrow> saveCart u w = saveCart v w"
  by (simp add: saveCart_def)

lemma addToCart_absent:
  assumes i: "i \<noteq> []" "n \<noteq> []" "\<not> isNaN p" and l: "loads w cart"
    and a: "\<forall>x\<in>set cart. id' x \<noteq> i"
  shows "addToCart (Some \<lparr>productId = Some i, productName = Some n, productPrice = p, productImg = Some img\<rparr>) w =
    (Redraw, saveCart (as_stored (cart @ [\<lparr>id' = i, name = n, price = p, image' = img, quantity = 1\<rparr>]))
               (snd (getCart w)))"
proof -
  let ?d = "\<lparr>productId = Some i, productName = Some n, productPrice = p, productImg = Some img\<rparr>"
  have "addToCart (Some ?d) w = (Redraw, saveCart (Arr (map stored_item cart @ [new_item ?d])) (snd (getCart w)))"
    using i by (simp add: addToCart_valid[OF _ _ _ _ _ l, of ?d i n] add_item_absent[OF a, of ?d])
  then show ?thesis
    by (simp add: new_item_typed saveCart_cong[OF stringify_append_new])
qed




lemma removeFromCart_loads:
  assumes "loads w cart"
  shows "removeFromCart i w =
     (Redraw, saveCart (as_stored (filter (\<lambda>x. id' x \<noteq> i) cart)) (snd (getCart w)))"
proof -
  obtain w1 where g: "getCart w = (Inr (as_stored cart), w1)"
    using getCart_loads[OF assms] by blast
  show ?thesis by (simp add: removeFromCart_def g as_stored_eq js_filter_stored)
qed

lemma loads_getCart: "loads (snd (getCart w)) cart = loads w cart"
  by (simp add: loads_def getCart_def getCart_try_def getItem_def console_error_def
      split: sum.splits localStorage.splits)

lemma loads_saveCart_failed:
  assumes "\<not> can_store w (cart_val cart')" "loads w cart"
  shows "loads (saveCart (as_stored cart') (snd (getCart w))) cart"
proof -
  have n: "\<not> can_store (snd (getCart w)) (as_stored cart')"
    using assms(1) by (simp add: can_store_getCart can_store_as_stored)
  have "loads (snd (getCart w)) cart" using assms(2) by (simp add: loads_getCart)
  then show ?thesis
    using saveCart_failure(1)[OF n]
    by (simp add: loads_def getCart_def getCart_try_def getItem_def split: sum.splits localStorage.splits)
qed

lemma storage_saveCart:
  "storage (saveCart v w) =
     (case storage w of
        Unavailable \<Rightarrow> Unavailable
      | Store m \<Rightarrow>
          if accepts w (JSON_stringify v) then Store (m(CART_STORAGE_KEY \<mapsto> JSON_stringify v))
          else Store m)"
  by (simp add: saveCart_def setItem_def console_error_def split: localStorage.splits)

lemma can_store_saveCart: "can_store (saveCart u w) v = can_store w v"
  by (simp add: can_store_def storage_saveCart saveCart_accepts split: localStorage.splits)


lemma addItem_absent:
  assumes "i \<noteq> []" "n \<noteq> []" "\<not> isNaN p" and "loads w cart" and "\<forall>x\<in>set cart. id' x \<noteq> i"
  shows "addItem i n p img w =
    (Redraw, saveCart (as_stored (cart @ [\<lparr>id' = i, name = n, price = p, image' = img, quantity = 1\<rparr>]))
               (snd (getCart w)))"
  unfolding addItem_def using assms by (rule addToCart_absent)

subsection \<open>The browser of the examples\<close>

lemma loads_world_of_None: "loads (world_of None) []"
  by (simp add: loads_def world_of_def getCart_def getCart_try_def getItem_def as_stored_eq)

lemma loads_world_of: "loads (world_of (Some (JSON_stringify (cart_val cart)))) cart"
  by (simp add: loads_def world_of_def getCart_def getCart_try_def getItem_def stringify_cart_val)

lemma can_store_world_of: "can_store (world_of e) v"
  by (simp add: can_store_def world_of_def)

subsection \<open>Search and filter\<close>


lemma show_cards_eq:
  "show_cards fs cols n =
     (map (\<lambda>col. col\<lparr>display := (if card_matches fs col then ''block'' else ''none'')\<rparr>) cols,
      n + length (filter (card_matches fs) cols))"
  by (induction cols arbitrary: n) simp_all





lemma toLowerCase_idem: "toLowerCase (toLowerCase s) = toLowerCase s"
proof -
  have "to_lower (to_lower c) = to_lower c" for c
    by (simp add: to_lower_def Let_def)
  then show ?thesis by (simp add: toLowerCase_def)
qed

lemma shown_applyFilters:
  assumes "productGridContainer pg = Some cards"
  shows "shown (applyFilters pg)
          = map (\<lambda>col. col\<lparr>display := ''block''\<rparr>) (filter (card_matches (filterState pg)) cards)"
proof -
  have "filter (\<lambda>col. display col = ''block'')
          (map (\<lambda>col. col\<lparr>display := (if card_matches fs col then ''block'' else ''none'')\<rparr>) cs)
        = map (\<lambda>col. col\<lparr>display := ''block''\<rparr>) (filter (card_matches fs) cs)" for fs cs
    by (induction cs) simp_all
  then show ?thesis
    using assms by (simp add: shown_def applyFilters_def show_cards_eq Let_def)
qed





section \<open>Loading the cart\<close>

text \<open>
  C7, as amended. \<^verbatim>\<open>getCart\<close> never raises an exception and never changes the
  storage. It returns the empty sequence when the storage cannot be read or holds a text
  that does not decode (both are logged), and when the entry is missing or empty;
  otherwise it returns the value that the entry decodes to, whatever that value is.
\<close>

theorem getCart_cases:
  "getCart w =
     (case storage w of
        Unavailable \<Rightarrow>
          (Inr (Arr []),
           console_error ''Error retrieving cart from localStorage:'' (Some SecurityError) w)
      | Store m \<Rightarrow>
          (case m CART_STORAGE_KEY of
             None \<Rightarrow> (Inr (Arr []), w)
           | Some (Unparsable s) \<Rightarrow>
               if s = [] then (Inr (Arr []), w)
               else (Inr (Arr []),
                     console_error ''Error retrieving cart from localStorage:'' (Some SyntaxError) w)
           | Some (Json v) \<Rightarrow> (Inr v, w)))"
  by (simp add: getCart_def getCart_try_def getItem_def
      split: localStorage.splits option.splits stored.splits)

text \<open>
  C7, as stated, fails: when the entry is the text \<^verbatim>\<open>{}\<close>, which decodes to an
  object without properties, \<^verbatim>\<open>getCart\<close> returns that object, and it is no sequence
  of line items.
\<close>

theorem getCart_not_a_cart:
  "fst (getCart (world_of (Some (Json (Obj []))))) = Inr (Obj []) \<and> \<not> is_cart (Obj [])"
  by (simp add: getCart_def getCart_try_def getItem_def world_of_def)

section \<open>Saving and loading\<close>

text \<open>
  C8, as amended. For every cart whose prices are finite numbers, \<^verbatim>\<open>saveCart\<close>
  followed by \<^verbatim>\<open>getCart\<close> returns the cart, with its items in their order and all
  their properties, when the write succeeds.
\<close>

theorem saveCart_getCart:
  assumes "\<forall>x\<in>set cart. isFinite (price x)" and "can_store w (cart_val cart)"
  shows "getCart (saveCart (cart_val cart) w) = (Inr (cart_val cart), saveCart (cart_val cart) w)"
proof -
  have "cart_val cart \<noteq> Undefined" by (simp add: cart_val_def)
  with assms(2) have "getCart (saveCart (cart_val cart) w)
      = (Inr (json_norm (cart_val cart)), saveCart (cart_val cart) w)"
    by (rule getCart_saveCart)
  moreover have "json_norm (cart_val cart) = cart_val cart"
    using as_stored_finite[OF assms(1)] by (simp add: as_stored_def)
  ultimately show ?thesis by simp
qed

text \<open>The theorem at work on a cart of two items.\<close>

theorem saveCart_getCart_witness:
  "fst (getCart (saveCart (cart_val
       [\<lparr>id' = ''w1'', name = ''Aura'', price = Fin 10, image' = ''a.png'', quantity = 2\<rparr>,
        \<lparr>id' = ''w2'', name = ''Orion'', price = Fin (11 / 2), image' = ''o.png'', quantity = 1\<rparr>])
      (world_of None)))
   = Inr (cart_val
       [\<lparr>id' = ''w1'', name = ''Aura'', price = Fin 10, image' = ''a.png'', quantity = 2\<rparr>,
        \<lparr>id' = ''w2'', name = ''Orion'', price = Fin (11 / 2), image' = ''o.png'', quantity = 1\<rparr>])"
proof -
  let ?cart = "[\<lparr>id' = ''w1'', name = ''Aura'', price = Fin 10, image' = ''a.png'', quantity = 2\<rparr>,
        \<lparr>id' = ''w2'', name = ''Orion'', price = Fin (11 / 2), image' = ''o.png'', quantity = 1\<rparr>]"
  have "\<forall>x\<in>set ?cart. isFinite (price x)" by simp
  from saveCart_getCart[OF this can_store_world_of] show ?thesis by simp
qed

text \<open>
  C8, as stated, fails on a price that is not finite: \<^verbatim>\<open>JSON.stringify\<close> writes
  \<^verbatim>\<open>Infinity\<close> as \<^verbatim>\<open>null\<close>, and \<^verbatim>\<open>getCart\<close> returns the item with the price
  \<^verbatim>\<open>null\<close>. (\<^verbatim>\<open>addToCart\<close> accepts such a price: \<^verbatim>\<open>parseFloat\<close> reads it from
  the text \<^verbatim>\<open>Infinity\<close>, and it is not \<open>NaN\<close>.)
\<close>

theorem saveCart_getCart_infinite_price:
  "is_cart (cart_val [\<lparr>id' = ''w1'', name = ''Aura'', price = PosInf, image' = ''a.png'', quantity = 1\<rparr>])
   \<and> fst (getCart (saveCart
        (cart_val [\<lparr>id' = ''w1'', name = ''Aura'', price = PosInf, image' = ''a.png'', quantity = 1\<rparr>])
        (world_of None)))
     = Inr (Arr [Obj [(''id'', Str ''w1''), (''name'', Str ''Aura''), (''price'', Null),
                      (''image'', Str ''a.png''), (''quantity'', Num (Fin 1))]])
   \<and> fst (getCart (saveCart
        (cart_val [\<lparr>id' = ''w1'', name = ''Aura'', price = PosInf, image' = ''a.png'', quantity = 1\<rparr>])
        (world_of None)))
     \<noteq> Inr (cart_val [\<lparr>id' = ''w1'', name = ''Aura'', price = PosInf, image' = ''a.png'', quantity = 1\<rparr>])"
  by (simp add: cart_val_def item_val_def saveCart_def setItem_def world_of_def JSON_stringify_def
      getCart_def getCart_try_def getItem_def)

section \<open>Adding an item\<close>





section \<open>Rejecting an item\<close>

text \<open>
  C3, as amended. \<^verbatim>\<open>addToCart\<close> checks that the id and the name are present and not
  empty and that the price is a number: when the id or the name is missing or empty, or
  the price is \<open>NaN\<close>, the call logs a message, returns without an exception, and leaves
  the storage as it was. The sign of the price is not checked.
\<close>

theorem addToCart_rejects:
  assumes "productId d = None \<or> productId d = Some [] \<or> productName d = None
           \<or> productName d = Some [] \<or> productPrice d = NaN"
  shows "addToCart (Some d) w
           = (Returned, console_error ''Missing product data for adding to cart.'' None w)
         \<and> storage (snd (addToCart (Some d) w)) = storage w"
proof -
  have "not_attr (productId d) \<or> not_attr (productName d) \<or> isNaN (productPrice d)"
    using assms by (auto simp: not_attr_def)
  then show ?thesis
    by (simp add: addToCart_def console_error_def)
qed

text \<open>
  The theorem at work on the call of the specification, with an empty id and the price
  \<open>NaN\<close>, on a stored cart.
\<close>

theorem addToCart_rejects_witness:
  "addToCart (Some \<lparr>productId = Some [], productName = Some ''X'', productPrice = NaN, productImg = Some []\<rparr>)
      (world_of (Some (JSON_stringify (cart_val
           [\<lparr>id' = ''w1'', name = ''Aura'', price = Fin 10, image' = ''a.png'', quantity = 4\<rparr>]))))
   = (Returned,
      console_error ''Missing product data for adding to cart.'' None
        (world_of (Some (JSON_stringify (cart_val
           [\<lparr>id' = ''w1'', name = ''Aura'', price = Fin 10, image' = ''a.png'', quantity = 4\<rparr>])))))"
  using addToCart_rejects[of "\<lparr>productId = Some [], productName = Some ''X'', productPrice = NaN, productImg = Some []\<rparr>"
      "world_of (Some (JSON_stringify (cart_val
           [\<lparr>id' = ''w1'', name = ''Aura'', price = Fin 10, image' = ''a.png'', quantity = 4\<rparr>])))"]
  by simp

text \<open>
  C3, as stated, fails on a negative price: \<^verbatim>\<open>addItem\<close> with the price \<open>-5\<close> adds
  the item to the empty cart.
\<close>

theorem addItem_negative_price:
  "loads (world_of None) []
   \<and> loads (snd (addItem ''w1'' ''Aura'' (Fin (- 5)) ''a.png'' (world_of None)))
       [\<lparr>id' = ''w1'', name = ''Aura'', price = Fin (- 5), image' = ''a.png'', quantity = 1\<rparr>]
   \<and> fst (getCart (snd (addItem ''w1'' ''Aura'' (Fin (- 5)) ''a.png'' (world_of None))))
       \<noteq> fst (getCart (world_of None))"
proof -
  let ?new = "\<lparr>id' = ''w1'', name = ''Aura'', price = Fin (- 5), image' = ''a.png'', quantity = 1\<rparr>"
  have r: "addItem ''w1'' ''Aura'' (Fin (- 5)) ''a.png'' (world_of None)
      = (Redraw, saveCart (as_stored ([] @ [?new])) (snd (getCart (world_of None))))"
    by (rule addItem_absent[OF _ _ _ loads_world_of_None]) simp_all
  have l: "loads (snd (addItem ''w1'' ''Aura'' (Fin (- 5)) ''a.png'' (world_of None))) [?new]"
    using loads_saveCart[where w = "world_of None" and cart = "[?new]", OF can_store_world_of]
    by (simp add: r)
  have "fst (getCart (snd (addItem ''w1'' ''Aura'' (Fin (- 5)) ''a.png'' (world_of None))))
       \<noteq> fst (getCart (world_of None))"
    using l loads_world_of_None by (simp add: loads_def as_stored_eq)
  with l loads_world_of_None show ?thesis by simp
qed

section \<open>Decrementing an item\<close>



section \<open>Removing an item\<close>

text \<open>
  C5. Let \<^verbatim>\<open>getCart\<close> return the cart. \<^verbatim>\<open>removeFromCart\<close> hands to
  \<^verbatim>\<open>saveCart\<close> the cart without the items of the given id. Calling it twice in a
  row leaves the same storage, and the same cart for \<^verbatim>\<open>getCart\<close>, as calling it
  once. When no item has the id, \<^verbatim>\<open>getCart\<close> returns the cart of before.
\<close>

theorem removeFromCart_idempotent:
  assumes "loads w cart"
  shows
    "(let once = removeFromCart i w;
          twice = removeFromCart i (snd once);
          cart' = filter (\<lambda>x. id' x \<noteq> i) cart
      in storage (snd twice) = storage (snd once)
         \<and> fst (getCart (snd twice)) = fst (getCart (snd once))
         \<and> once = (Redraw, saveCart (as_stored cart') (snd (getCart w)))
         \<and> (can_store w (cart_val cart') \<longrightarrow> loads (snd once) cart' \<and> loads (snd twice) cart')
         \<and> ((\<forall>x\<in>set cart. id' x \<noteq> i) \<longrightarrow> loads (snd once) cart))"
proof -
  let ?cart' = "filter (\<lambda>x. id' x \<noteq> i) cart"
  let ?w1 = "saveCart (as_stored ?cart') (snd (getCart w))"
  let ?w2 = "saveCart (as_stored ?cart') (snd (getCart ?w1))"
  have once: "removeFromCart i w = (Redraw, ?w1)"
    by (rule removeFromCart_loads[OF assms])
  have l1: "loads ?w1 (if can_store w (cart_val ?cart') then ?cart' else cart)"
    using loads_saveCart[of w ?cart'] loads_saveCart_failed[of w ?cart' cart] assms by auto
  have f: "filter (\<lambda>x. id' x \<noteq> i) (if can_store w (cart_val ?cart') then ?cart' else cart) = ?cart'"
    by simp
  have twice: "removeFromCart i ?w1 = (Redraw, ?w2)"
    using removeFromCart_loads[OF l1, of i] unfolding f .
  have c: "can_store ?w1 (cart_val ?cart') = can_store w (cart_val ?cart')"
    by (simp add: can_store_saveCart can_store_getCart)
  have st: "storage ?w2 = storage ?w1"
    by (simp add: storage_saveCart getCart_frame saveCart_accepts split: localStorage.splits)
  have l2: "loads ?w2 (if can_store w (cart_val ?cart') then ?cart' else cart)"
    using loads_saveCart[of ?w1 ?cart'] loads_saveCart_failed[of ?w1 ?cart', OF _ l1] c by auto
  have same: "fst (getCart ?w2) = fst (getCart ?w1)"
    using l1 l2 by (simp add: loads_def)
  have noop: "loads ?w1 cart" if "\<forall>x\<in>set cart. id' x \<noteq> i"
  proof -
    from that have "?cart' = cart" by simp
    with l1 show ?thesis by (simp split: if_splits)
  qed
  from st same l1 l2 noop show ?thesis
    unfolding Let_def once twice snd_conv by auto
qed

text \<open>The theorem at work: removing the first of two stored items, once and twice.\<close>

theorem removeFromCart_idempotent_witness:
  "loads (snd (removeFromCart ''w1''
        (world_of (Some (JSON_stringify (cart_val
           [\<lparr>id' = ''w1'', name = ''Aura'', price = Fin 10, image' = ''a.png'', quantity = 4\<rparr>,
            \<lparr>id' = ''w2'', name = ''Orion'', price = Fin 5, image' = ''o.png'', quantity = 1\<rparr>]))))))
       [\<lparr>id' = ''w2'', name = ''Orion'', price = Fin 5, image' = ''o.png'', quantity = 1\<rparr>]
   \<and> loads (snd (removeFromCart ''w1'' (snd (removeFromCart ''w1''
        (world_of (Some (JSON_stringify (cart_val
           [\<lparr>id' = ''w1'', name = ''Aura'', price = Fin 10, image' = ''a.png'', quantity = 4\<rparr>,
            \<lparr>id' = ''w2'', name = ''Orion'', price = Fin 5, image' = ''o.png'', quantity = 1\<rparr>]))))))))
       [\<lparr>id' = ''w2'', name = ''Orion'', price = Fin 5, image' = ''o.png'', quantity = 1\<rparr>]"
proof -
  let ?a = "\<lparr>id' = ''w1'', name = ''Aura'', price = Fin 10, image' = ''a.png'', quantity = 4\<rparr>"
  let ?b = "\<lparr>id' = ''w2'', name = ''Orion'', price = Fin 5, image' = ''o.png'', quantity = 1\<rparr>"
  from removeFromCart_idempotent[OF loads_world_of[of "[?a, ?b]"], of "''w1''", unfolded Let_def,
      THEN conjunct2, THEN conjunct2, THEN conjunct2, THEN conjunct1, THEN mp, OF can_store_world_of]
  show ?thesis by simp
qed

section \<open>Placing an order\<close>



section \<open>Filtering the products\<close>




section \<open>The message of the filter\<close>

text \<open>
  C9, as amended. On a page with the heading, \<^verbatim>\<open>applyFilters\<close> counts the cards
  displayed and sets the message by which of the query and the category are set. With
  the query alone, and with both, the message has two forms: one carries the count, the
  other, for the count 0, says that no results were found, and the two are different
  texts. With the category alone and a positive count the message carries the count.
  With neither there is no message.
\<close>

theorem applyFilters_message:
  assumes "productGridContainer pg = Some cards" and "featuredHeading pg"
    and "q = searchQuery (filterState pg)" and "c = category (filterState pg)"
    and "n = length (shown (applyFilters pg))"
  shows
    "(q \<noteq> [] \<and> c = ''all'' \<longrightarrow>
        searchResultMessage (applyFilters pg) =
          Some (message_html
            (if 0 < n then ''Showing '' @ decimal_digits n @ '' results for: <strong>'' @ quoted q @ ''</strong>''
             else ''No results found for: <strong>'' @ quoted q @ ''</strong>'')))
   \<and> (q = [] \<and> c \<noteq> ''all'' \<and> 0 < n \<longrightarrow>
        searchResultMessage (applyFilters pg) =
          Some (message_html
            (''Showing '' @ decimal_digits n @ '' results in <strong>'' @ hyphens_to_blanks c @ ''</strong>'')))
   \<and> (q \<noteq> [] \<and> c \<noteq> ''all'' \<longrightarrow>
        searchResultMessage (applyFilters pg) =
          Some (message_html
            (if 0 < n then ''Showing '' @ decimal_digits n @ '' results for <strong>'' @ quoted q
                            @ ''</strong> in <strong>'' @ hyphens_to_blanks c @ ''</strong>''
             else ''No results found for <strong>'' @ quoted q @ ''</strong> in <strong>''
                    @ hyphens_to_blanks c @ ''</strong>'')))
   \<and> (q = [] \<and> c = ''all'' \<longrightarrow> searchResultMessage (applyFilters pg) = None)
   \<and> (\<forall>m. ''No results found for: <strong>'' @ quoted q @ ''</strong>''
            \<noteq> ''Showing '' @ decimal_digits m @ '' results for: <strong>'' @ quoted q @ ''</strong>'')
   \<and> (\<forall>m. ''No results found for <strong>'' @ quoted q @ ''</strong> in <strong>''
              @ hyphens_to_blanks c @ ''</strong>''
            \<noteq> ''Showing '' @ decimal_digits m @ '' results for <strong>'' @ quoted q
              @ ''</strong> in <strong>'' @ hyphens_to_blanks c @ ''</strong>'')"
proof -
  have n: "n = length (filter (card_matches (filterState pg)) cards)"
    using assms(1,5) by (simp add: shown_applyFilters)
  have m: "searchResultMessage (applyFilters pg) =
      (if messageText (filterState pg) n \<noteq> [] then Some (message_html (messageText (filterState pg) n))
       else None)"
    using assms(1,2) by (simp add: applyFilters_def show_cards_eq Let_def n)
  show ?thesis
    unfolding m using assms(3,4) by (simp add: messageText_def)
qed

text \<open>
  The theorem at work: one card for the query \<^verbatim>\<open>orion\<close>, and none for the query
  \<^verbatim>\<open>nautic\<close> in the category \<^verbatim>\<open>dress\<close>.
\<close>

theorem applyFilters_message_witness:
  "searchResultMessage (setSearchQuery ''orion''
       (home_of [product ''orion chrono'' ''chronograph'', product ''aura classic'' ''dress'']))
     = Some (message_html (''Showing 1 results for: <strong>'' @ quoted ''orion'' @ ''</strong>''))
   \<and> searchResultMessage (setSearchQuery ''nautic'' (setCategory ''dress''
       (home_of [product ''orion chrono'' ''chronograph'', product ''aura classic'' ''dress''])))
     = Some (message_html (''No results found for <strong>'' @ quoted ''nautic''
              @ ''</strong> in <strong>dress</strong>''))"
proof -
  let ?cards = "[product ''orion chrono'' ''chronograph'', product ''aura classic'' ''dress'']"
  let ?p1 = "(home_of ?cards)\<lparr>searchInput := Some ''orion'',
                filterState := \<lparr>searchQuery = ''orion'', category = ''all''\<rparr>\<rparr>"
  let ?p2 = "(home_of ?cards)\<lparr>searchInput := Some ''nautic'',
                filterState := \<lparr>searchQuery = ''nautic'', category = ''dress''\<rparr>\<rparr>"
  have s1: "setSearchQuery ''orion'' (home_of ?cards) = applyFilters ?p1" by code_simp
  have s2: "setSearchQuery ''nautic'' (setCategory ''dress'' (home_of ?cards)) = applyFilters ?p2"
    by code_simp
  have n1: "1 = length (shown (applyFilters ?p1))" by code_simp
  have n2: "0 = length (shown (applyFilters ?p2))" by code_simp
  have g1: "productGridContainer ?p1 = Some ?cards" "featuredHeading ?p1"
    "''orion'' = searchQuery (filterState ?p1)" "''all'' = category (filterState ?p1)"
    by (simp_all add: home_of_def)
  have g2: "productGridContainer ?p2 = Some ?cards" "featuredHeading ?p2"
    "''nautic'' = searchQuery (filterState ?p2)" "''dress'' = category (filterState ?p2)"
    by (simp_all add: home_of_def)
  have d: "decimal_digits (Suc 0) = ''1''" by code_simp
  have 1: "searchResultMessage (applyFilters ?p1)
      = Some (message_html (''Showing 1 results for: <strong>'' @ quoted ''orion'' @ ''</strong>''))"
    using applyFilters_message[OF g1 n1, THEN conjunct1] by (simp add: d)
  have 2: "searchResultMessage (applyFilters ?p2)
      = Some (message_html (''No results found for <strong>'' @ quoted ''nautic''
              @ ''</strong> in <strong>dress</strong>''))"
    using applyFilters_message[OF g2 n2, THEN conjunct2, THEN conjunct2, THEN conjunct1]
    by (simp add: hyphens_to_blanks_def)
  from 1 2 show ?thesis unfolding s1 s2 by simp
qed

text \<open>
  C9, as stated, fails: with the query and the category at their defaults and no card,
  the count is 0 and there is no message; with the category \<^verbatim>\<open>dress\<close> alone and no
  card of that category, the count is 0 and the message is the one that carries the
  count.
\<close>

theorem applyFilters_no_message:
  "shown (applyFilters (home_of [])) = []
   \<and> searchResultMessage (applyFilters (home_of [])) = None
   \<and> shown (setCategory ''dress'' (home_of [product ''orion chrono'' ''chronograph''])) = []
   \<and> searchResultMessage (setCategory ''dress'' (home_of [product ''orion chrono'' ''chronograph'']))
       = Some (message_html ''Showing 0 results in <strong>dress</strong>'')"
  by code_simp

end
